theory Spec2Isabelle
  imports Main
begin

section \<open>Go error values\<close>

text \<open>
  A Go \<^verbatim>\<open>error\<close> is an interface value: \<^verbatim>\<open>nil\<close> or a value of some dynamic type.
  The non-nil values are the datatype \<open>goerr\<close>; \<open>error\<close> adds \<^verbatim>\<open>nil\<close> as \<open>None\<close>.
  Every value is a pointer, so each constructor carries the address it was allocated at
  and Go's \<^verbatim>\<open>==\<close> on two errors is equality of the terms.

  The universe holds one constructor for each method set that \<^verbatim>\<open>errors.Is\<close> and
  \<^verbatim>\<open>errors.As\<close> tell apart: a leaf (\<^verbatim>\<open>errors.New\<close>), a wrapper with
  \<^verbatim>\<open>Unwrap() error\<close> (\<^verbatim>\<open>fmt.Errorf\<close> with \<^verbatim>\<open>%w\<close>; a hand-written wrapper may
  unwrap to \<^verbatim>\<open>nil\<close>), a wrapper with \<^verbatim>\<open>Unwrap() []error\<close> (\<^verbatim>\<open>errors.Join\<close>), a
  leaf of a foreign type that has a \<^verbatim>\<open>StatusMsg\<close> method, and the package's own
  \<^verbatim>\<open>*handlerError\<close>. Foreign types with \<^verbatim>\<open>Is\<close> or \<^verbatim>\<open>As\<close> methods of their own are
  outside the universe.
\<close>

type_synonym addr = nat

text \<open>
  \<^verbatim>\<open>type handlerError struct { err error; status int; responseMsg string }\<close>.
  The status is a Go \<^verbatim>\<open>int\<close> that is only stored and handed on, never computed with,
  so it is an \<open>int\<close> here.
\<close>

datatype 'e handlerError =
  HandlerError (err: "'e option") (status: int) (responseMsg: string)

datatype goerr =
    ErrorString addr string
  | WrapError addr string "goerr option"
  | JoinError addr "goerr option list"
  | StatusError addr int string
  | PtrHandlerError addr "goerr handlerError"

type_synonym error = "goerr option"

text \<open>\<^verbatim>\<open>func (h *handlerError) StatusMsg() (int, string)\<close>\<close>

definition StatusMsg :: "'e handlerError \<Rightarrow> int \<times> string" where
  "StatusMsg h = (status h, responseMsg h)"

text \<open>\<^verbatim>\<open>func (h *handlerError) Unwrap() error\<close>\<close>

definition Unwrap :: "'e handlerError \<Rightarrow> 'e option" where
  "Unwrap h = err h"

subsection \<open>\<^verbatim>\<open>errors.As\<close> and the \<^verbatim>\<open>As\<close> method\<close>

text \<open>
  \<^verbatim>\<open>errors.As(err, target)\<close> with a valid target (a non-nil pointer to a variable of an
  interface type or of a type implementing \<^verbatim>\<open>error\<close>; anything else panics in the
  library and is not modelled). The target type is the predicate \<open>T\<close> saying which
  values are assignable to it. The result \<open>Some v\<close> is \<^verbatim>\<open>true\<close> with \<open>v\<close> stored
  in the target, \<open>None\<close> is \<^verbatim>\<open>false\<close>.

  \<open>as_loop\<close> is the library's loop \<^verbatim>\<open>as\<close>: the assignability test, then the value's own
  \<^verbatim>\<open>As\<close> method when it has one, then \<^verbatim>\<open>Unwrap\<close>. \<open>as_each\<close> is its loop over the
  result of \<^verbatim>\<open>Unwrap() []error\<close>, which skips \<^verbatim>\<open>nil\<close>.
  \<open>handlerError_As\<close> is \<^verbatim>\<open>func (h *handlerError) As(target any) bool\<close>.
\<close>

function (sequential) errors_As :: "(goerr \<Rightarrow> bool) \<Rightarrow> error \<Rightarrow> goerr option"
  and as_loop :: "(goerr \<Rightarrow> bool) \<Rightarrow> goerr \<Rightarrow> goerr option"
  and as_each :: "(goerr \<Rightarrow> bool) \<Rightarrow> error list \<Rightarrow> goerr option"
  and handlerError_As :: "(goerr \<Rightarrow> bool) \<Rightarrow> goerr handlerError \<Rightarrow> goerr option"
where
  "errors_As T None = None"
| "errors_As T (Some e) = as_loop T e"
| "as_loop T (ErrorString a m) =
     (if T (ErrorString a m) then Some (ErrorString a m) else None)"
| "as_loop T (WrapError a m c) =
     (if T (WrapError a m c) then Some (WrapError a m c)
      else (case c of None \<Rightarrow> None | Some e \<Rightarrow> as_loop T e))"
| "as_loop T (JoinError a cs) =
     (if T (JoinError a cs) then Some (JoinError a cs) else as_each T cs)"
| "as_loop T (StatusError a st m) =
     (if T (StatusError a st m) then Some (StatusError a st m) else None)"
| "as_loop T (PtrHandlerError a h) =
     (if T (PtrHandlerError a h) then Some (PtrHandlerError a h)
      else (case handlerError_As T h of
              Some v \<Rightarrow> Some v
            | None \<Rightarrow> (case Unwrap h of None \<Rightarrow> None | Some e \<Rightarrow> as_loop T e)))"
| "as_each T [] = None"
| "as_each T (None # cs) = as_each T cs"
| "as_each T (Some e # cs) =
     (case as_loop T e of Some v \<Rightarrow> Some v | None \<Rightarrow> as_each T cs)"
| "handlerError_As T h = errors_As T (err h)"
  by pat_completeness auto
termination
  apply (relation "measure (\<lambda>x. case x of
      Inl (Inl (T, e)) \<Rightarrow> size_option size e
    | Inl (Inr (T, e)) \<Rightarrow> size e
    | Inr (Inl (T, cs)) \<Rightarrow> size_list (size_option size) cs
    | Inr (Inr (T, h)) \<Rightarrow> size_handlerError size h)")
  apply (auto simp: Unwrap_def)
  subgoal for T a h x2 by (cases h) auto
  subgoal for h by (cases h) auto
  done

subsection \<open>\<^verbatim>\<open>errors.Is\<close> and the \<^verbatim>\<open>Is\<close> method\<close>

text \<open>
  \<^verbatim>\<open>errors.Is(err, target)\<close>: when either side is \<^verbatim>\<open>nil\<close> the answer is
  \<^verbatim>\<open>err == target\<close>; otherwise the loop \<^verbatim>\<open>is\<close> compares (every type of the universe
  is a pointer type, hence comparable), asks the value's own \<^verbatim>\<open>Is\<close> method when it has
  one, and unwraps. \<open>handlerError_Is\<close> is \<^verbatim>\<open>func (h *handlerError) Is(target error) bool\<close>.
\<close>

function (sequential) errors_Is :: "error \<Rightarrow> error \<Rightarrow> bool"
  and is_loop :: "goerr \<Rightarrow> goerr \<Rightarrow> bool"
  and is_each :: "error list \<Rightarrow> goerr \<Rightarrow> bool"
  and handlerError_Is :: "goerr handlerError \<Rightarrow> error \<Rightarrow> bool"
where
  "errors_Is None target = (target = None)"
| "errors_Is (Some e) None = False"
| "errors_Is (Some e) (Some t) = is_loop e t"
| "is_loop (ErrorString a m) t = (ErrorString a m = t)"
| "is_loop (WrapError a m c) t =
     (if WrapError a m c = t then True
      else (case c of None \<Rightarrow> False | Some e \<Rightarrow> is_loop e t))"
| "is_loop (JoinError a cs) t =
     (if JoinError a cs = t then True else is_each cs t)"
| "is_loop (StatusError a st m) t = (StatusError a st m = t)"
| "is_loop (PtrHandlerError a h) t =
     (if PtrHandlerError a h = t then True
      else if handlerError_Is h (Some t) then True
      else (case Unwrap h of None \<Rightarrow> False | Some e \<Rightarrow> is_loop e t))"
| "is_each [] t = False"
| "is_each (None # cs) t = is_each cs t"
| "is_each (Some e # cs) t = (if is_loop e t then True else is_each cs t)"
| "handlerError_Is h target = errors_Is (err h) target"
  by pat_completeness auto
termination
  apply (relation "measure (\<lambda>x. case x of
      Inl (Inl (e, t)) \<Rightarrow> size_option size e
    | Inl (Inr (e, t)) \<Rightarrow> size e
    | Inr (Inl (cs, t)) \<Rightarrow> size_list (size_option size) cs
    | Inr (Inr (h, t)) \<Rightarrow> size_handlerError size h)")
  apply (auto simp: Unwrap_def)
  subgoal for a h t x2 by (cases h) auto
  subgoal for h by (cases h) auto
  done

subsection \<open>The cause chain\<close>

text \<open>
  The cause chain of an error, in the order a walk visits it: the error itself, then what
  it unwraps to, the members of a joined error from left to right, \<^verbatim>\<open>nil\<close> left out.
\<close>

function (sequential) chain :: "goerr \<Rightarrow> goerr list"
  and chain_each :: "error list \<Rightarrow> goerr list"
where
  "chain (ErrorString a m) = [ErrorString a m]"
| "chain (WrapError a m c) =
     WrapError a m c # (case c of None \<Rightarrow> [] | Some e \<Rightarrow> chain e)"
| "chain (JoinError a cs) = JoinError a cs # chain_each cs"
| "chain (StatusError a st m) = [StatusError a st m]"
| "chain (PtrHandlerError a h) =
     PtrHandlerError a h # (case err h of None \<Rightarrow> [] | Some e \<Rightarrow> chain e)"
| "chain_each [] = []"
| "chain_each (None # cs) = chain_each cs"
| "chain_each (Some e # cs) = chain e @ chain_each cs"
  by pat_completeness auto
termination
  apply (relation "measure (\<lambda>x. case x of
      Inl e \<Rightarrow> size e
    | Inr cs \<Rightarrow> size_list (size_option size) cs)")
  apply auto
  subgoal for h by (cases h) auto
  done

subsection \<open>The \<^verbatim>\<open>StatusMsg\<close> capability\<close>

text \<open>
  The target of the adapter is a variable of type
  \<^verbatim>\<open>interface{ StatusMsg() (int, string) }\<close>. \<open>call_StatusMsg\<close> is the method call
  through that interface: \<open>None\<close> for a value whose type has no such method.
\<close>

fun call_StatusMsg :: "goerr \<Rightarrow> (int \<times> string) option" where
  "call_StatusMsg (StatusError a st m) = Some (st, m)"
| "call_StatusMsg (PtrHandlerError a h) = Some (StatusMsg h)"
| "call_StatusMsg (ErrorString a m) = None"
| "call_StatusMsg (WrapError a m c) = None"
| "call_StatusMsg (JoinError a cs) = None"

definition has_StatusMsg :: "goerr \<Rightarrow> bool" where
  "has_StatusMsg e = (call_StatusMsg e \<noteq> None)"

subsection \<open>\<^verbatim>\<open>NewError\<close>\<close>

text \<open>\<^verbatim>\<open>strings.Join(elems, sep)\<close>\<close>

fun strings_Join :: "string list \<Rightarrow> string \<Rightarrow> string" where
  "strings_Join [] sep = []"
| "strings_Join [x] sep = x"
| "strings_Join (x # y # ys) sep = x @ sep @ strings_Join (y # ys) sep"

text \<open>
  \<^verbatim>\<open>func NewError(err error, status int, responseMsg ...string) error\<close>. The first
  argument of the model is the address of the \<^verbatim>\<open>handlerError\<close> that the call
  allocates.
\<close>

definition NewError :: "addr \<Rightarrow> error \<Rightarrow> int \<Rightarrow> string list \<Rightarrow> goerr" where
  "NewError a cause st parts =
     PtrHandlerError a (HandlerError cause st (strings_Join parts '' ''))"

section \<open>The host HTTP layer\<close>

text \<open>
  What \<^verbatim>\<open>net/http\<close> gives the package. A response writer is modelled as a recorder:
  the header map, the status code of the first \<^verbatim>\<open>WriteHeader\<close> (later calls are
  superfluous and ignored; \<^verbatim>\<open>Write\<close> without one implies 200) and the body written so
  far. On a writer that has no status yet, \<^verbatim>\<open>WriteHeader\<close> panics for a code below
  100 or above 999 and writes nothing. The content type that a first \<^verbatim>\<open>Write\<close> sniffs
  when the header has none is left out.

  A call into the host layer returns or panics; either way it leaves a world behind.
  Nothing in the package recovers from a panic, so a panic ends the invocation it
  happens in.
\<close>

datatype 's outcome = Returned (world_of: 's) | Panicked (world_of: 's)

fun returned :: "'s outcome \<Rightarrow> bool" where
  "returned (Returned s) = True"
| "returned (Panicked s) = False"

record response =
  header :: "string \<rightharpoonup> string"
  statusCode :: "int option"
  body :: string

definition Header_Set :: "string \<Rightarrow> string \<Rightarrow> response \<Rightarrow> response" where
  "Header_Set k v rs = rs\<lparr>header := (header rs)(k \<mapsto> v)\<rparr>"

definition WriteHeader :: "int \<Rightarrow> response \<Rightarrow> response outcome" where
  "WriteHeader code rs =
     (if statusCode rs = None
      then (if code < 100 \<or> 999 < code then Panicked rs
            else Returned (rs\<lparr>statusCode := Some code\<rparr>))
      else Returned rs)"

text \<open>\<^verbatim>\<open>Write\<close> calls \<^verbatim>\<open>WriteHeader(http.StatusOK)\<close> first when no status has been
  written; that call returns.\<close>

definition Write :: "string \<Rightarrow> response \<Rightarrow> response" where
  "Write data rs =
     (let rs' = world_of (WriteHeader 200 rs) in rs'\<lparr>body := body rs' @ data\<rparr>)"

text \<open>\<^verbatim>\<open>http.StatusInternalServerError\<close> and the table of \<^verbatim>\<open>http.StatusText\<close>.\<close>

definition StatusInternalServerError :: int where
  "StatusInternalServerError = 500"

definition status_texts :: "(int \<times> string) list" where
  "status_texts =
   [(100, ''Continue''), (101, ''Switching Protocols''), (102, ''Processing''),
    (103, ''Early Hints''),
    (200, ''OK''), (201, ''Created''), (202, ''Accepted''),
    (203, ''Non-Authoritative Information''), (204, ''No Content''),
    (205, ''Reset Content''), (206, ''Partial Content''), (207, ''Multi-Status''),
    (208, ''Already Reported''), (226, ''IM Used''),
    (300, ''Multiple Choices''), (301, ''Moved Permanently''), (302, ''Found''),
    (303, ''See Other''), (304, ''Not Modified''), (305, ''Use Proxy''),
    (307, ''Temporary Redirect''), (308, ''Permanent Redirect''),
    (400, ''Bad Request''), (401, ''Unauthorized''), (402, ''Payment Required''),
    (403, ''Forbidden''), (404, ''Not Found''), (405, ''Method Not Allowed''),
    (406, ''Not Acceptable''), (407, ''Proxy Authentication Required''),
    (408, ''Request Timeout''), (409, ''Conflict''), (410, ''Gone''),
    (411, ''Length Required''), (412, ''Precondition Failed''),
    (413, ''Request Entity Too Large''), (414, ''Request URI Too Long''),
    (415, ''Unsupported Media Type''), (416, ''Requested Range Not Satisfiable''),
    (417, ''Expectation Failed''), (418, ''I'' @ [CHR 0x27] @ ''m a teapot''),
    (421, ''Misdirected Request''), (422, ''Unprocessable Entity''), (423, ''Locked''),
    (424, ''Failed Dependency''), (425, ''Too Early''), (426, ''Upgrade Required''),
    (428, ''Precondition Required''), (429, ''Too Many Requests''),
    (431, ''Request Header Fields Too Large''),
    (451, ''Unavailable For Legal Reasons''),
    (500, ''Internal Server Error''), (501, ''Not Implemented''), (502, ''Bad Gateway''),
    (503, ''Service Unavailable''), (504, ''Gateway Timeout''),
    (505, ''HTTP Version Not Supported''), (506, ''Variant Also Negotiates''),
    (507, ''Insufficient Storage''), (508, ''Loop Detected''), (510, ''Not Extended''),
    (511, ''Network Authentication Required'')]"

definition StatusText :: "int \<Rightarrow> string" where
  "StatusText code = (case map_of status_texts code of None \<Rightarrow> [] | Some t \<Rightarrow> t)"

text \<open>
  The world a request runs in: the response writers, addressed by the reference \<open>'w\<close>
  that a handler receives as its argument \<^verbatim>\<open>w\<close>, and what has been written to
  \<^verbatim>\<open>os.Stderr\<close>. The record is extensible: whatever else handlers, middleware, a
  caller's error sink or a caller's \<^verbatim>\<open>ErrFunc\<close> touch lives in the extension \<open>'z\<close>.
\<close>

record 'w world =
  writers :: "'w \<Rightarrow> response"
  stderr :: "goerr list"

text \<open>
  An \<^verbatim>\<open>io.Writer\<close> appears in the package only as the destination of
  \<^verbatim>\<open>fmt.Fprint(errWriter, err)\<close>, whose results are discarded. It is modelled by the
  effect of that call on the world. The bytes written are those of \<^verbatim>\<open>err.Error()\<close>;
  the model hands the writer the error value itself and leaves the formatting out.
  A writer whose \<^verbatim>\<open>Write\<close> panics is outside the model.
\<close>

type_synonym ('w, 'z) Writer = "goerr \<Rightarrow> ('w, 'z) world_scheme \<Rightarrow> ('w, 'z) world_scheme"

definition Fprint :: "('w, 'z) Writer \<Rightarrow> goerr \<Rightarrow> ('w, 'z) world_scheme \<Rightarrow> ('w, 'z) world_scheme" where
  "Fprint wr e s = wr e s"

definition os_Stderr :: "('w, 'z) Writer" where
  "os_Stderr e s = s\<lparr>stderr := stderr s @ [e]\<rparr>"

text \<open>\<^verbatim>\<open>type ErrFunc func(w http.ResponseWriter, err string, code int)\<close>\<close>

type_synonym ('w, 'z) ErrFunc =
  "'w \<Rightarrow> string \<Rightarrow> int \<Rightarrow> ('w, 'z) world_scheme \<Rightarrow> ('w, 'z) world_scheme outcome"

text \<open>
  \<^verbatim>\<open>http.Error\<close>: sets the content type headers, writes the status code and then the
  message followed by a newline. It puts no text of its own in the place of an empty
  message. When \<^verbatim>\<open>WriteHeader\<close> panics, the headers are set and nothing is written.
  Recent releases of the library also delete some headers first; no property here
  depends on them and the deletions are left out.
\<close>

definition http_Error :: "('w, 'z) ErrFunc" where
  "http_Error w msg code s =
     (let rs = Header_Set ''X-Content-Type-Options'' ''nosniff''
                 (Header_Set ''Content-Type'' ''text/plain; charset=utf-8'' (writers s w))
      in case WriteHeader code rs of
           Panicked rs' \<Rightarrow> Panicked (s\<lparr>writers := (writers s)(w := rs')\<rparr>)
         | Returned rs' \<Rightarrow>
             Returned (s\<lparr>writers := (writers s)(w := Write (msg @ [CHR 0x0A]) rs')\<rparr>))"

section \<open>The composer\<close>

text \<open>
  \<^verbatim>\<open>Handler\<close> is an interface with the one method \<^verbatim>\<open>ServeHTTP(w, r) error\<close>, and
  \<^verbatim>\<open>HandlerFunc\<close> the function type that implements it by calling itself; both are
  the type of functions from the writer reference, the request and the world to the
  returned error and the world left behind. A handler is a total function that
  returns: a \<^verbatim>\<open>nil\<close> handler, a handler that panics and one that never returns are
  outside the model. The definitions of this section are the same in both source files.
\<close>

type_synonym ('w, 'r, 's) Handler = "'w \<Rightarrow> 'r \<Rightarrow> 's \<Rightarrow> error \<times> 's"

type_synonym ('w, 'r, 's) Middleware = "('w, 'r, 's) Handler \<Rightarrow> ('w, 'r, 's) Handler"

definition ServeHTTP :: "('w, 'r, 's) Handler \<Rightarrow> 'w \<Rightarrow> 'r \<Rightarrow> 's \<Rightarrow> error \<times> 's" where
  "ServeHTTP h w r s = h w r s"

text \<open>\<^verbatim>\<open>func Wrap(h HandlerFunc, mw ...Middleware) Handler\<close>\<close>

fun Wrap :: "('w, 'r, 's) Handler \<Rightarrow> ('w, 'r, 's) Middleware list \<Rightarrow> ('w, 'r, 's) Handler" where
  "Wrap h [] = h"
| "Wrap h (m # mw) = m (Wrap h mw)"

text \<open>\<^verbatim>\<open>func WrapCommon(common ...Middleware) func(HandlerFunc, ...Middleware) Handler\<close>\<close>

definition WrapCommon ::
  "('w, 'r, 's) Middleware list \<Rightarrow> ('w, 'r, 's) Handler \<Rightarrow> ('w, 'r, 's) Middleware list
     \<Rightarrow> ('w, 'r, 's) Handler" where
  "WrapCommon common = (\<lambda>h specific.
     let handler = Wrap h specific;
         handler = Wrap (ServeHTTP handler) common
     in (\<lambda>w r. ServeHTTP handler w r))"

text \<open>
  \<^verbatim>\<open>http.Handler\<close>, whose \<^verbatim>\<open>ServeHTTP\<close> returns no value: it returns or panics,
  and leaves a world. \<^verbatim>\<open>type ToStd func(Handler) http.Handler\<close>.
\<close>

type_synonym ('w, 'r, 's) http_Handler = "'w \<Rightarrow> 'r \<Rightarrow> 's \<Rightarrow> 's outcome"

type_synonym ('w, 'r, 's) ToStd = "('w, 'r, 's) Handler \<Rightarrow> ('w, 'r, 's) http_Handler"

text \<open>\<^verbatim>\<open>func WrapCommonToStd(toStd ToStd, common ...Middleware)\<close>\<close>

definition WrapCommonToStd ::
  "('w, 'r, 's) ToStd \<Rightarrow> ('w, 'r, 's) Middleware list \<Rightarrow> ('w, 'r, 's) Handler
     \<Rightarrow> ('w, 'r, 's) Middleware list \<Rightarrow> ('w, 'r, 's) http_Handler" where
  "WrapCommonToStd toStd common =
     (let wrap = WrapCommon common in (\<lambda>h specific. toStd (wrap h specific)))"

text \<open>\<^verbatim>\<open>func WrapToStd(h HandlerFunc, toStd ToStd, mw ...Middleware) http.Handler\<close> as
  \<^verbatim>\<open>src/httperr.go\<close> has it.\<close>

definition WrapToStd ::
  "('w, 'r, 's) Handler \<Rightarrow> ('w, 'r, 's) ToStd \<Rightarrow> ('w, 'r, 's) Middleware list
     \<Rightarrow> ('w, 'r, 's) http_Handler" where
  "WrapToStd h toStd mw = (let handler = Wrap h mw in toStd handler)"

section \<open>The error translator\<close>

text \<open>
  \<^verbatim>\<open>func HandleErr(errWriter io.Writer, errFunc ErrFunc) ToStd\<close>. A \<^verbatim>\<open>nil\<close> argument
  is \<open>None\<close>. The target \<^verbatim>\<open>e\<close> of \<^verbatim>\<open>errors.As\<close> has the interface type whose values
  are those with \<open>has_StatusMsg\<close>, so the call \<^verbatim>\<open>e.StatusMsg()\<close> on what
  \<^verbatim>\<open>errors.As\<close> stored there always finds its method. When the response function
  panics, the panic leaves the adapter and the write to the sink is not reached.
\<close>

definition HandleErr ::
  "('w, 'z) Writer option \<Rightarrow> ('w, 'z) ErrFunc option
     \<Rightarrow> ('w, 'r, ('w, 'z) world_scheme) ToStd" where
  "HandleErr errWriter errFunc =
     (let errWriter = (case errWriter of None \<Rightarrow> os_Stderr | Some wr \<Rightarrow> wr);
          errFunc = (case errFunc of None \<Rightarrow> http_Error | Some f \<Rightarrow> f)
      in (\<lambda>h w r s.
            case ServeHTTP h w r s of
              (None, s1) \<Rightarrow> Returned s1
            | (Some e, s1) \<Rightarrow>
                (case (case errors_As has_StatusMsg (Some e) of
                         Some v \<Rightarrow>
                           (case the (call_StatusMsg v) of
                              (st, msg) \<Rightarrow> errFunc w msg st s1)
                       | None \<Rightarrow>
                           errFunc w (StatusText StatusInternalServerError)
                             StatusInternalServerError s1) of
                   Panicked s2 \<Rightarrow> Panicked s2
                 | Returned s2 \<Rightarrow> Returned (Fprint errWriter e s2))))"

text \<open>\<^verbatim>\<open>WrapToStd\<close> as \<^verbatim>\<open>src/unnamed/part_000\<close> has it: the parameter
  \<^verbatim>\<open>toStd\<close> is not used.\<close>

definition WrapToStd_part_000 ::
  "('w, 'r, ('w, 'z) world_scheme) Handler \<Rightarrow> ('w, 'r, ('w, 'z) world_scheme) ToStd
     \<Rightarrow> ('w, 'r, ('w, 'z) world_scheme) Middleware list
     \<Rightarrow> ('w, 'r, ('w, 'z) world_scheme) http_Handler" where
  "WrapToStd_part_000 h toStd mw = (let handler = Wrap h mw in HandleErr None None handler)"

section \<open>Vocabulary of the properties\<close>

subsection \<open>Middleware with pre-logic and post-logic\<close>

text \<open>
  Concrete middleware is not part of the package. The middleware the ordering
  properties speak of runs its pre-logic, calls the next handler once and runs its
  post-logic on what came back:
  \<^verbatim>\<open>func(next Handler) Handler { return HandlerFunc(func(w, r) error {
      pre(w, r); err := next.ServeHTTP(w, r); return post(w, r, err) }) }\<close>.
  The pre-logic is any change of the world, the post-logic any change of the world and
  of the returned error. \<open>pre_all\<close> runs the pre-logic of a list from its first member
  to its last, \<open>post_all\<close> the post-logic from the last member to the first.
\<close>

type_synonym ('w, 'r, 's) logic =
  "('w \<Rightarrow> 'r \<Rightarrow> 's \<Rightarrow> 's) \<times> ('w \<Rightarrow> 'r \<Rightarrow> error \<times> 's \<Rightarrow> error \<times> 's)"

definition around :: "('w, 'r, 's) logic \<Rightarrow> ('w, 'r, 's) Middleware" where
  "around m next = (\<lambda>w r s. snd m w r (ServeHTTP next w r (fst m w r s)))"

definition pre_all :: "('w, 'r, 's) logic list \<Rightarrow> 'w \<Rightarrow> 'r \<Rightarrow> 's \<Rightarrow> 's" where
  "pre_all ms w r s = fold (\<lambda>m. fst m w r) ms s"

definition post_all :: "('w, 'r, 's) logic list \<Rightarrow> 'w \<Rightarrow> 'r \<Rightarrow> error \<times> 's \<Rightarrow> error \<times> 's" where
  "post_all ms w r x = fold (\<lambda>m. snd m w r) (rev ms) x"

text \<open>
  Ordering markers: the world is the list of markers left so far. \<open>marker n\<close> leaves
  \<open>n-pre\<close> before the next handler and \<open>n-post\<close> after it, \<open>terminal\<close> leaves \<open>t\<close>.
\<close>

definition marker :: "string \<Rightarrow> ('w, 'r, string list) logic" where
  "marker n = (\<lambda>w r s. s @ [n @ ''-pre''], \<lambda>w r x. (fst x, snd x @ [n @ ''-post'']))"

definition terminal :: "('w, 'r, string list) Handler" where
  "terminal w r s = (None, s @ [''t''])"

subsection \<open>Classification in the words of the specification\<close>

text \<open>
  Walk the cause chain for the first value exposing the status-and-message accessor and
  use its status and message; with none, status 500 and the generic text of 500.
\<close>

definition classify :: "goerr \<Rightarrow> int \<times> string" where
  "classify e =
     (case find has_StatusMsg (chain e) of
        Some v \<Rightarrow> the (call_StatusMsg v)
      | None \<Rightarrow> (500, ''Internal Server Error''))"

subsection \<open>Recording collaborators\<close>

text \<open>
  An error sink and an \<^verbatim>\<open>ErrFunc\<close> that do nothing but append a record of the call
  to a log kept in the extension of the world.
\<close>

datatype event = ErrFuncCalled string int | SinkWritten goerr

definition rec_errFunc :: "('w, event list) ErrFunc" where
  "rec_errFunc w msg code s = Returned (s\<lparr>more := more s @ [ErrFuncCalled msg code]\<rparr>)"

definition rec_sink :: "('w, event list) Writer" where
  "rec_sink e s = s\<lparr>more := more s @ [SinkWritten e]\<rparr>"

subsection \<open>Sample inputs\<close>

definition fresh_response :: response where
  "fresh_response = \<lparr>header = Map.empty, statusCode = None, body = []\<rparr>"

definition fresh_world :: "(nat, event list) world_scheme" where
  "fresh_world = \<lparr>writers = (\<lambda>w. fresh_response), stderr = [], \<dots> = []\<rparr>"

definition boom :: goerr where
  "boom = ErrorString 0 ''boom''"

text \<open>A handler that writes nothing and returns the given error.\<close>

definition fail_with :: "goerr \<Rightarrow> ('w, 'r, 's) Handler" where
  "fail_with e w r s = (Some e, s)"

text \<open>A handler that writes its own response and returns \<^verbatim>\<open>nil\<close>.\<close>

definition say_ok :: "('w, 'r, ('w, 'z) world_scheme) Handler" where
  "say_ok w r s = (None, s\<lparr>writers := (writers s)(w := Write ''ok'' (writers s w))\<rparr>)"

text \<open>
  A classified error \<open>not_found\<close> with the message parts \<open>not\<close> and \<open>found\<close>, the
  same error wrapped once more (\<^verbatim>\<open>fmt.Errorf("lookup: %w", err)\<close>), and a classified
  error built with no message parts.
\<close>

definition not_found :: goerr where
  "not_found = NewError 1 (Some boom) 404 [''not'', ''found'']"

definition lookup_failed :: goerr where
  "lookup_failed = WrapError 2 ''lookup'' (Some not_found)"


text \<open>A classified error whose status is 0.\<close>

definition zero_status :: goerr where
  "zero_status = NewError 1 (Some boom) 0 [''zero'']"

text \<open>A converter with collaborators of the caller's own.\<close>

definition recording_toStd :: "(nat, unit, (nat, event list) world_scheme) ToStd" where
  "recording_toStd = HandleErr (Some rec_sink) (Some rec_errFunc)"

text \<open>The target type \<^verbatim>\<open>*errors.errorString\<close> of an \<^verbatim>\<open>errors.As\<close> call.\<close>

fun is_errorString :: "goerr \<Rightarrow> bool" where
  "is_errorString (ErrorString a m) = True"
| "is_errorString (WrapError a m c) = False"
| "is_errorString (JoinError a cs) = False"
| "is_errorString (StatusError a st m) = False"
| "is_errorString (PtrHandlerError a h) = False"

section \<open>Properties of the composer\<close>

lemma Wrap_foldr: "Wrap h mw = foldr (\<lambda>m k. m k) mw h"
  by (induction mw) simp_all

lemma Wrap_append: "Wrap h (xs @ ys) = Wrap (Wrap h ys) xs"
  by (induction xs) simp_all

lemma post_all_Cons: "post_all (m # ms) w r x = snd m w r (post_all ms w r x)"
  by (simp add: post_all_def)

lemma pre_all_Cons: "pre_all (m # ms) w r s = pre_all ms w r (fst m w r s)"
  by (simp add: pre_all_def)

lemma pre_all_append: "pre_all (cs @ ss) w r s = pre_all ss w r (pre_all cs w r s)"
  by (simp add: pre_all_def)

lemma post_all_append: "post_all (cs @ ss) w r x = post_all cs w r (post_all ss w r x)"
  by (simp add: post_all_def)

lemma around_apply: "around m next w r s = snd m w r (next w r (fst m w r s))"
  by (simp add: around_def ServeHTTP_def)

lemma Wrap_around:
  "Wrap t (map around ms) w r s = post_all ms w r (t w r (pre_all ms w r s))"
proof (induction ms arbitrary: s)
  case Nil
  show ?case by (simp add: post_all_def pre_all_def)
next
  case (Cons m ms)
  have "Wrap t (map around (m # ms)) w r s = around m (Wrap t (map around ms)) w r s"
    by simp
  also have "\<dots> = snd m w r (Wrap t (map around ms) w r (fst m w r s))"
    by (rule around_apply)
  also have "\<dots> = snd m w r (post_all ms w r (t w r (pre_all ms w r (fst m w r s))))"
    by (simp only: Cons.IH)
  also have "\<dots> = post_all (m # ms) w r (t w r (pre_all (m # ms) w r s))"
    by (simp only: post_all_Cons pre_all_Cons)
  finally show ?case .
qed

lemma WrapCommon_eq: "WrapCommon common h specific = Wrap h (common @ specific)"
  by (simp add: WrapCommon_def Wrap_append ServeHTTP_def[abs_def] Let_def)

text \<open>
  Claim C1. For every list of middleware and every terminal handler, \<open>Wrap\<close> nests the
  list from the right, so that the first middleware is outermost and the last wraps the
  terminal directly; and when the middleware have pre-logic and post-logic, invoking the
  composed handler runs the pre-logic of \<open>m1, \<dots>, mn\<close> in this order, then the
  terminal, then the post-logic of \<open>mn, \<dots>, m1\<close>.
\<close>

theorem Wrap_order:
  "Wrap h mw = foldr (\<lambda>m k. m k) mw h \<and>
   ServeHTTP (Wrap t (map around ms)) w r s = post_all ms w r (t w r (pre_all ms w r s))"
proof
  show "Wrap h mw = foldr (\<lambda>m k. m k) mw h"
    by (rule Wrap_foldr)
  show "ServeHTTP (Wrap t (map around ms)) w r s = post_all ms w r (t w r (pre_all ms w r s))"
    unfolding ServeHTTP_def by (rule Wrap_around)
qed

text \<open>The test of the specification, with three ordering markers.\<close>

lemma Wrap_three_markers:
  "ServeHTTP (Wrap terminal (map around [marker ''m1'', marker ''m2'', marker ''m3''])) w r []
   = (None, [''m1-pre'', ''m2-pre'', ''m3-pre'', ''t'', ''m3-post'', ''m2-post'', ''m1-post''])"
  by (simp add: ServeHTTP_def Wrap_around post_all_def pre_all_def marker_def terminal_def
      del: map_map list.map)

text \<open>
  Claim C4. \<open>WrapCommon common\<close> applied to a terminal and a specific list is \<open>Wrap\<close> of
  the common list followed by the specific list, whatever the specific list is: the
  common middleware is outermost. With pre-logic and post-logic the order of execution
  is \<open>c1, \<dots>, ck, s1, \<dots>, sn\<close>, the terminal, and the post-logic in the reverse order.
\<close>

theorem WrapCommon_order:
  "WrapCommon common h specific = Wrap h (common @ specific) \<and>
   ServeHTTP (WrapCommon (map around cs) t (map around ss)) w r s =
     post_all (cs @ ss) w r (t w r (pre_all (cs @ ss) w r s))"
proof
  show "WrapCommon common h specific = Wrap h (common @ specific)"
    by (rule WrapCommon_eq)
  have "ServeHTTP (WrapCommon (map around cs) t (map around ss)) w r s =
        Wrap t (map around (cs @ ss)) w r s"
    by (simp only: WrapCommon_eq ServeHTTP_def map_append)
  then show "ServeHTTP (WrapCommon (map around cs) t (map around ss)) w r s =
     post_all (cs @ ss) w r (t w r (pre_all (cs @ ss) w r s))"
    by (simp only: Wrap_around)
qed

text \<open>The test of the specification: common \<open>[c1]\<close>, specific \<open>[s1]\<close>.\<close>

lemma WrapCommon_two_markers:
  "ServeHTTP (WrapCommon (map around [marker ''c1'']) terminal (map around [marker ''s1''])) w r []
   = (None, [''c1-pre'', ''s1-pre'', ''t'', ''s1-post'', ''c1-post''])"
  by (simp add: ServeHTTP_def WrapCommon_eq around_apply marker_def terminal_def)

text \<open>
  Claim C7. With no middleware \<open>Wrap\<close> returns the terminal handler itself: invoked on
  any writer, request and world it has the effects and the result of the terminal.
\<close>

theorem Wrap_identity: "Wrap t [] = t \<and> ServeHTTP (Wrap t []) w r s = t w r s"
  by (simp add: ServeHTTP_def)

section \<open>Properties of the error translator\<close>

subsection \<open>\<^verbatim>\<open>errors.As\<close> walks the cause chain\<close>

lemma find_append_opt:
  "find P (xs @ ys) = (case find P xs of Some x \<Rightarrow> Some x | None \<Rightarrow> find P ys)"
  by (induction xs) simp_all

text \<open>
  \<^verbatim>\<open>errors.As\<close> returns the first value of the cause chain that is assignable to the
  target. The detour of \<^verbatim>\<open>*handlerError\<close> through its own \<^verbatim>\<open>As\<close> method searches
  the chain of the cause, and the \<^verbatim>\<open>Unwrap\<close> that follows a failed detour searches
  it once more in vain.
\<close>

lemma as_is_find:
  "errors_As T eo = find T (case eo of None \<Rightarrow> [] | Some e \<Rightarrow> chain e)"
  "as_loop T e = find T (chain e)"
  "as_each T cs = find T (chain_each cs)"
  "handlerError_As T h = find T (case err h of None \<Rightarrow> [] | Some e \<Rightarrow> chain e)"
proof (induction T eo and T e and T cs and T h
    rule: errors_As_as_loop_as_each_handlerError_As.induct)
  case (7 T a h)
  then show ?case by (cases "err h") (auto simp: Unwrap_def split: option.splits)
qed (simp_all add: find_append_opt split: option.splits)

lemma find_Some_P: "find P xs = Some x \<Longrightarrow> P x"
  by (induction xs) (auto split: if_splits)

text \<open>What \<^verbatim>\<open>errors.As\<close> stores in the target is assignable to it, so the method call
  on the target in \<open>HandleErr\<close> is defined.\<close>

lemma errors_As_has: "errors_As T eo = Some v \<Longrightarrow> T v"
  by (simp add: as_is_find find_Some_P)

lemma StatusText_500: "StatusText 500 = ''Internal Server Error''"
  by (simp add: StatusText_def status_texts_def)

subsection \<open>The host layer\<close>

text \<open>
  \<^verbatim>\<open>http.Error\<close> returns unless the writer has no status yet and the code is below
  100 or above 999; the second lemma spells out the world it leaves in each case.
\<close>

lemma http_Error_returned:
  "returned (http_Error w msg code s) =
     (if statusCode (writers s w) = None then 100 \<le> code \<and> code \<le> 999 else True)"
  by (auto simp: http_Error_def WriteHeader_def Header_Set_def Let_def)

lemma http_Error_world:
  "http_Error w msg code s =
     (let rs = (writers s w)\<lparr>header := (header (writers s w))
                  (''Content-Type'' \<mapsto> ''text/plain; charset=utf-8'',
                   ''X-Content-Type-Options'' \<mapsto> ''nosniff'')\<rparr>
      in if statusCode (writers s w) = None
         then (if code < 100 \<or> 999 < code
               then Panicked (s\<lparr>writers := (writers s)(w := rs)\<rparr>)
               else Returned (s\<lparr>writers := (writers s)
                      (w := rs\<lparr>statusCode := Some code, body := body rs @ msg @ [CHR 0x0A]\<rparr>)\<rparr>))
         else Returned (s\<lparr>writers := (writers s)
                  (w := rs\<lparr>body := body rs @ msg @ [CHR 0x0A]\<rparr>)\<rparr>))"
  by (simp add: http_Error_def WriteHeader_def Write_def Header_Set_def Let_def)

subsection \<open>The adapter\<close>

lemma HandleErr_error:
  assumes "ServeHTTP h w r s = (Some e, s1)"
  shows "HandleErr errWriter errFunc h w r s =
         (case (case errFunc of None \<Rightarrow> http_Error | Some f \<Rightarrow> f) w
                 (snd (classify e)) (fst (classify e)) s1 of
            Panicked s2 \<Rightarrow> Panicked s2
          | Returned s2 \<Rightarrow>
              Returned (Fprint (case errWriter of None \<Rightarrow> os_Stderr | Some wr \<Rightarrow> wr) e s2))"
  using assms
  by (simp add: HandleErr_def Let_def classify_def as_is_find StatusText_500
      StatusInternalServerError_def split: option.splits prod.splits)

lemma HandleErr_nil:
  assumes "ServeHTTP h w r s = (None, s1)"
  shows "HandleErr errWriter errFunc h w r s = Returned s1"
  using assms by (simp add: HandleErr_def Let_def)

lemma HandleErr_cases:
  "HandleErr errWriter errFunc h w r s =
     (case ServeHTTP h w r s of
        (None, s1) \<Rightarrow> Returned s1
      | (Some e, s1) \<Rightarrow>
          (case (case errFunc of None \<Rightarrow> http_Error | Some f \<Rightarrow> f) w
                  (snd (classify e)) (fst (classify e)) s1 of
             Panicked s2 \<Rightarrow> Panicked s2
           | Returned s2 \<Rightarrow>
               Returned ((case errWriter of None \<Rightarrow> os_Stderr | Some wr \<Rightarrow> wr) e s2)))"
proof (cases "ServeHTTP h w r s")
  case (Pair res s1)
  show ?thesis
  proof (cases res)
    case None
    with Pair show ?thesis by (simp add: HandleErr_nil)
  next
    case (Some e)
    with Pair show ?thesis by (simp add: HandleErr_error Fprint_def split: outcome.splits)
  qed
qed

lemma classify_lookup_failed: "classify lookup_failed = (404, ''not found'')"
  by (simp add: classify_def lookup_failed_def not_found_def NewError_def has_StatusMsg_def
      StatusMsg_def)

lemma classify_boom: "classify boom = (500, ''Internal Server Error'')"
  by (simp add: classify_def boom_def has_StatusMsg_def)

lemma classify_NewError: "classify (NewError a cause st parts) = (st, strings_Join parts '' '')"
  by (simp add: classify_def NewError_def has_StatusMsg_def StatusMsg_def)

text \<open>
  Claim C2. When the wrapped handler returns the error \<open>e\<close>, the adapter calls the
  response function with the status and message of the first value of the cause chain of
  \<open>e\<close> that exposes \<^verbatim>\<open>StatusMsg\<close>, and with status 500 and the generic text of 500 when
  the chain holds none (\<open>classify\<close>); the arguments \<^verbatim>\<open>nil\<close> stand for \<^verbatim>\<open>os.Stderr\<close>
  and \<^verbatim>\<open>http.Error\<close>. What follows the call is the write to the sink when the
  response function returns, and its panic when it panics.
\<close>

theorem HandleErr_classifies:
  assumes "ServeHTTP h w r s = (Some e, s1)"
  shows "HandleErr errWriter errFunc h w r s =
         (case (case errFunc of None \<Rightarrow> http_Error | Some f \<Rightarrow> f) w
                 (snd (classify e)) (fst (classify e)) s1 of
            Panicked s2 \<Rightarrow> Panicked s2
          | Returned s2 \<Rightarrow>
              Returned (Fprint (case errWriter of None \<Rightarrow> os_Stderr | Some wr \<Rightarrow> wr) e s2))"
  using assms by (rule HandleErr_error)

theorem HandleErr_classifies_witness:
  "ServeHTTP (fail_with lookup_failed) (0::nat) () fresh_world = (Some lookup_failed, fresh_world) \<and>
   HandleErr (Some rec_sink) (Some rec_errFunc) (fail_with lookup_failed) 0 () fresh_world
     = Returned (fresh_world\<lparr>more := [ErrFuncCalled ''not found'' 404, SinkWritten lookup_failed]\<rparr>) \<and>
   statusCode (writers (world_of
       (HandleErr None None (fail_with lookup_failed) 0 () fresh_world)) 0) = Some 404 \<and>
   body (writers (world_of
       (HandleErr None None (fail_with lookup_failed) 0 () fresh_world)) 0)
     = ''not found'' @ [CHR 0x0A] \<and>
   ServeHTTP (fail_with boom) (0::nat) () fresh_world = (Some boom, fresh_world) \<and>
   HandleErr (Some rec_sink) (Some rec_errFunc) (fail_with boom) 0 () fresh_world
     = Returned (fresh_world\<lparr>more := [ErrFuncCalled ''Internal Server Error'' 500, SinkWritten boom]\<rparr>)"
proof -
  have a: "ServeHTTP (fail_with lookup_failed) (0::nat) () fresh_world = (Some lookup_failed, fresh_world)"
    by (simp add: ServeHTTP_def fail_with_def)
  have b: "ServeHTTP (fail_with boom) (0::nat) () fresh_world = (Some boom, fresh_world)"
    by (simp add: ServeHTTP_def fail_with_def)
  show ?thesis
    using a b
      HandleErr_classifies [OF a, of "Some rec_sink" "Some rec_errFunc"]
      HandleErr_classifies [OF a, of None None]
      HandleErr_classifies [OF b, of "Some rec_sink" "Some rec_errFunc"]
    by (simp add: classify_lookup_failed classify_boom Fprint_def rec_sink_def rec_errFunc_def
        os_Stderr_def http_Error_world fresh_world_def fresh_response_def)
qed

text \<open>
  Claim C3, as stated, fails. The handler returns a classified error with status 0 and
  the response function is the default \<^verbatim>\<open>http.Error\<close>: \<^verbatim>\<open>WriteHeader(0)\<close> panics,
  the invocation fails and the sink, a recording one or \<^verbatim>\<open>os.Stderr\<close>, is written
  zero times.
\<close>

theorem HandleErr_sink_counterexample:
  "ServeHTTP (fail_with zero_status) (0::nat) () fresh_world = (Some zero_status, fresh_world) \<and>
   \<not> returned (HandleErr (Some rec_sink) None (fail_with zero_status) 0 () fresh_world) \<and>
   world.more (world_of (HandleErr (Some rec_sink) None (fail_with zero_status) 0 () fresh_world)) = [] \<and>
   \<not> returned (HandleErr None None (fail_with zero_status) 0 () fresh_world) \<and>
   stderr (world_of (HandleErr None None (fail_with zero_status) 0 () fresh_world)) = []"
proof -
  have a: "ServeHTTP (fail_with zero_status) (0::nat) () fresh_world = (Some zero_status, fresh_world)"
    by (simp add: ServeHTTP_def fail_with_def)
  have c: "classify zero_status = (0, ''zero'')"
    by (simp add: zero_status_def classify_NewError)
  have p: "http_Error (0::nat) ''zero'' 0 fresh_world =
           Panicked (fresh_world\<lparr>writers := (writers fresh_world)
             (0 := fresh_response\<lparr>header := [''Content-Type'' \<mapsto> ''text/plain; charset=utf-8'',
                                              ''X-Content-Type-Options'' \<mapsto> ''nosniff'']\<rparr>)\<rparr>)"
    by (simp add: http_Error_world fresh_world_def fresh_response_def)
  show ?thesis
    by (simp add: a HandleErr_error [OF a] c p) (simp add: fresh_world_def)
qed

text \<open>
  Claim C3, amended. For every invocation through the adapter produced by \<open>HandleErr\<close>,
  whatever the sink and the response function, \<^verbatim>\<open>nil\<close> standing for \<^verbatim>\<open>os.Stderr\<close>
  and \<^verbatim>\<open>http.Error\<close>: the response function is called exactly once, with the
  classification, when the wrapped handler returns an error, and never otherwise; when
  that call returns, the sink is written exactly once, after it; when that call panics,
  the panic ends the invocation and the sink is not written. With a recording sink and a
  recording response function the log grows by exactly the call and then the write; with
  \<^verbatim>\<open>os.Stderr\<close> the error is appended to it once; with \<^verbatim>\<open>http.Error\<close> the call
  panics exactly when the response has no status yet and the status is below 100 or
  above 999.
\<close>

theorem HandleErr_once:
  "HandleErr errWriter errFunc h' w' r' s' =
     (case ServeHTTP h' w' r' s' of
        (None, t) \<Rightarrow> Returned t
      | (Some e, t) \<Rightarrow>
          (case (case errFunc of None \<Rightarrow> http_Error | Some f \<Rightarrow> f) w'
                  (snd (classify e)) (fst (classify e)) t of
             Panicked u \<Rightarrow> Panicked u
           | Returned u \<Rightarrow>
               Returned ((case errWriter of None \<Rightarrow> os_Stderr | Some wr \<Rightarrow> wr) e u))) \<and>
   HandleErr (Some rec_sink) (Some rec_errFunc) h w r s =
     Returned (case ServeHTTP h w r s of
        (None, t) \<Rightarrow> t
      | (Some e, t) \<Rightarrow>
          t\<lparr>more := more t @ [ErrFuncCalled (snd (classify e)) (fst (classify e)), SinkWritten e]\<rparr>) \<and>
   HandleErr None (Some rec_errFunc) h w r s =
     Returned (case ServeHTTP h w r s of
        (None, t) \<Rightarrow> t
      | (Some e, t) \<Rightarrow>
          t\<lparr>stderr := stderr t @ [e],
            more := more t @ [ErrFuncCalled (snd (classify e)) (fst (classify e))]\<rparr>) \<and>
   HandleErr (Some rec_sink) None h w r s =
     (case ServeHTTP h w r s of
        (None, t) \<Rightarrow> Returned t
      | (Some e, t) \<Rightarrow>
          (let rs = (writers t w)\<lparr>header := (header (writers t w))
                      (''Content-Type'' \<mapsto> ''text/plain; charset=utf-8'',
                       ''X-Content-Type-Options'' \<mapsto> ''nosniff'')\<rparr>
           in if statusCode (writers t w) = None
              then (if fst (classify e) < 100 \<or> 999 < fst (classify e)
                    then Panicked (t\<lparr>writers := (writers t)(w := rs)\<rparr>)
                    else Returned (t\<lparr>writers := (writers t)
                           (w := rs\<lparr>statusCode := Some (fst (classify e)),
                                    body := body rs @ snd (classify e) @ [CHR 0x0A]\<rparr>),
                           more := more t @ [SinkWritten e]\<rparr>))
              else Returned (t\<lparr>writers := (writers t)
                       (w := rs\<lparr>body := body rs @ snd (classify e) @ [CHR 0x0A]\<rparr>),
                       more := more t @ [SinkWritten e]\<rparr>)))"
proof (intro conjI)
  show "HandleErr errWriter errFunc h' w' r' s' =
     (case ServeHTTP h' w' r' s' of
        (None, t) \<Rightarrow> Returned t
      | (Some e, t) \<Rightarrow>
          (case (case errFunc of None \<Rightarrow> http_Error | Some f \<Rightarrow> f) w'
                  (snd (classify e)) (fst (classify e)) t of
             Panicked u \<Rightarrow> Panicked u
           | Returned u \<Rightarrow>
               Returned ((case errWriter of None \<Rightarrow> os_Stderr | Some wr \<Rightarrow> wr) e u)))"
    by (rule HandleErr_cases)
  show "HandleErr (Some rec_sink) (Some rec_errFunc) h w r s =
     Returned (case ServeHTTP h w r s of
        (None, t) \<Rightarrow> t
      | (Some e, t) \<Rightarrow>
          t\<lparr>more := more t @ [ErrFuncCalled (snd (classify e)) (fst (classify e)), SinkWritten e]\<rparr>)"
    by (simp add: HandleErr_cases rec_sink_def rec_errFunc_def split: prod.splits option.splits)
  show "HandleErr None (Some rec_errFunc) h w r s =
     Returned (case ServeHTTP h w r s of
        (None, t) \<Rightarrow> t
      | (Some e, t) \<Rightarrow>
          t\<lparr>stderr := stderr t @ [e],
            more := more t @ [ErrFuncCalled (snd (classify e)) (fst (classify e))]\<rparr>)"
    by (simp add: HandleErr_cases os_Stderr_def rec_errFunc_def split: prod.splits option.splits)
  show "HandleErr (Some rec_sink) None h w r s =
     (case ServeHTTP h w r s of
        (None, t) \<Rightarrow> Returned t
      | (Some e, t) \<Rightarrow>
          (let rs = (writers t w)\<lparr>header := (header (writers t w))
                      (''Content-Type'' \<mapsto> ''text/plain; charset=utf-8'',
                       ''X-Content-Type-Options'' \<mapsto> ''nosniff'')\<rparr>
           in if statusCode (writers t w) = None
              then (if fst (classify e) < 100 \<or> 999 < fst (classify e)
                    then Panicked (t\<lparr>writers := (writers t)(w := rs)\<rparr>)
                    else Returned (t\<lparr>writers := (writers t)
                           (w := rs\<lparr>statusCode := Some (fst (classify e)),
                                    body := body rs @ snd (classify e) @ [CHR 0x0A]\<rparr>),
                           more := more t @ [SinkWritten e]\<rparr>))
              else Returned (t\<lparr>writers := (writers t)
                       (w := rs\<lparr>body := body rs @ snd (classify e) @ [CHR 0x0A]\<rparr>),
                       more := more t @ [SinkWritten e]\<rparr>)))"
    by (simp add: HandleErr_cases http_Error_world rec_sink_def Let_def
        split: prod.splits option.splits)
qed

text \<open>
  Claim C8. When the wrapped handler returns no error, the adapter returns and the world
  after it is the world the handler left: nothing more in the response, no call of the
  response function, nothing written to the sink, whatever the sink and the response
  function are.
\<close>

theorem HandleErr_no_error:
  assumes "ServeHTTP h w r s = (None, s1)"
  shows "HandleErr errWriter errFunc h w r s = Returned s1"
  using assms by (rule HandleErr_nil)

theorem HandleErr_no_error_witness:
  "ServeHTTP say_ok (0::nat) () fresh_world = (None, snd (say_ok 0 () fresh_world)) \<and>
   returned (HandleErr (Some rec_sink) (Some rec_errFunc) say_ok 0 () fresh_world) \<and>
   world.more (world_of (HandleErr (Some rec_sink) (Some rec_errFunc) say_ok 0 () fresh_world)) = [] \<and>
   returned (HandleErr None None say_ok 0 () fresh_world) \<and>
   stderr (world_of (HandleErr None None say_ok 0 () fresh_world)) = [] \<and>
   statusCode (writers (world_of (HandleErr None None say_ok 0 () fresh_world)) 0) = Some 200 \<and>
   body (writers (world_of (HandleErr None None say_ok 0 () fresh_world)) 0) = ''ok''"
proof -
  have a: "ServeHTTP say_ok (0::nat) () fresh_world = (None, snd (say_ok 0 () fresh_world))"
    by (simp add: ServeHTTP_def say_ok_def)
  show ?thesis
    using a HandleErr_no_error [OF a, of "Some rec_sink" "Some rec_errFunc"]
      HandleErr_no_error [OF a, of None None]
    by (simp add: say_ok_def fresh_world_def fresh_response_def Write_def WriteHeader_def)
qed

subsection \<open>Classified errors built by \<^verbatim>\<open>NewError\<close>\<close>




text \<open>
  Claim C6, as stated, fails: \<open>NewError\<close> with the status argument 0 produces a
  classified error whose status is 0, outside 100 to 599.
\<close>

theorem NewError_status_counterexample:
  "\<not> (100 \<le> fst (the (call_StatusMsg (NewError 0 None 0 []))) \<and>
      fst (the (call_StatusMsg (NewError 0 None 0 []))) \<le> 599)"
  by (simp add: NewError_def StatusMsg_def)

text \<open>
  Claim C6, amended. The status of the classified error that \<open>NewError\<close> produces is
  the status argument, stored as given, and its message is the parts joined by a space;
  so the status is in 100 to 599 exactly when the argument is.
\<close>

theorem NewError_status:
  "call_StatusMsg (NewError a cause st parts) = Some (st, strings_Join parts '' '') \<and>
   ((100 \<le> fst (the (call_StatusMsg (NewError a cause st parts))) \<and>
     fst (the (call_StatusMsg (NewError a cause st parts))) \<le> 599) = (100 \<le> st \<and> st \<le> 599))"
  by (simp add: NewError_def StatusMsg_def)

text \<open>
  Claim C9. For the \<^verbatim>\<open>handlerError\<close> that \<open>NewError\<close> builds around a cause, the
  method \<^verbatim>\<open>Is\<close> answers what \<^verbatim>\<open>errors.Is\<close> answers for the cause, the method
  \<^verbatim>\<open>As\<close> what \<^verbatim>\<open>errors.As\<close> answers for the cause, and \<^verbatim>\<open>Unwrap\<close> returns the
  cause.
\<close>

theorem handlerError_delegates:
  assumes "NewError a cause st parts = PtrHandlerError a' h"
  shows "handlerError_Is h target = errors_Is cause target \<and>
         handlerError_As T h = errors_As T cause \<and>
         Unwrap h = cause"
  using assms by (auto simp: NewError_def Unwrap_def)

theorem handlerError_delegates_witness:
  "not_found = PtrHandlerError 1 (HandlerError (Some boom) 404 ''not found'') \<and>
   handlerError_Is (HandlerError (Some boom) 404 ''not found'') (Some boom) \<and>
   \<not> handlerError_Is (HandlerError (Some boom) 404 ''not found'') (Some not_found) \<and>
   handlerError_As is_errorString (HandlerError (Some boom) 404 ''not found'') = Some boom \<and>
   Unwrap (HandlerError (Some boom) 404 ''not found'') = Some boom"
proof -
  have a: "NewError 1 (Some boom) 404 [''not'', ''found'']
           = PtrHandlerError 1 (HandlerError (Some boom) 404 ''not found'')"
    by (simp add: NewError_def)
  show ?thesis
    using a
      handlerError_delegates [OF a, of "Some boom" is_errorString]
      handlerError_delegates [OF a, of "Some not_found" is_errorString]
    by (simp add: not_found_def boom_def NewError_def)
qed

text \<open>
  Seen through the library functions, the envelope still answers for itself before its
  methods are asked: \<^verbatim>\<open>errors.Is\<close> holds for the envelope as target, by the comparison
  that precedes the method call, and \<^verbatim>\<open>errors.As\<close> stores the envelope when the target
  type admits it, which is how the adapter finds \<^verbatim>\<open>StatusMsg\<close>.
\<close>

lemma errors_Is_NewError:
  "errors_Is (Some (NewError a cause st parts)) (Some t) =
     (t = NewError a cause st parts \<or> errors_Is cause (Some t))"
  by (cases cause) (auto simp: NewError_def Unwrap_def)

lemma errors_As_NewError:
  "errors_As T (Some (NewError a cause st parts)) =
     (if T (NewError a cause st parts) then Some (NewError a cause st parts)
      else errors_As T cause)"
  by (cases cause) (auto simp: NewError_def Unwrap_def split: option.splits)

section \<open>The two definitions of \<^verbatim>\<open>WrapToStd\<close>\<close>

text \<open>
  \<^verbatim>\<open>src/httperr.go\<close> applies the converter it is given; \<^verbatim>\<open>src/unnamed/part_000\<close>
  applies \<^verbatim>\<open>HandleErr(nil, nil)\<close> whatever converter it is given.
\<close>

lemma WrapToStd_eq: "WrapToStd h toStd mw = toStd (Wrap h mw)"
  by (simp add: WrapToStd_def)

lemma WrapToStd_part_000_eq:
  "WrapToStd_part_000 h toStd mw = WrapToStd h (HandleErr None None) mw"
  by (simp add: WrapToStd_part_000_def WrapToStd_def)

text \<open>
  Claim C10 at a failing input: a handler that returns the error \<open>boom\<close>, a converter
  with a recording sink and a recording response function, no middleware. The definition
  of \<^verbatim>\<open>src/httperr.go\<close> logs to the recording sink and leaves \<^verbatim>\<open>os.Stderr\<close> and the
  response alone; the definition of \<^verbatim>\<open>src/unnamed/part_000\<close> writes to
  \<^verbatim>\<open>os.Stderr\<close>, answers 500 through \<^verbatim>\<open>http.Error\<close> and records nothing. Both
  return.
\<close>

theorem WrapToStd_part_000_ignores_toStd:
  "stderr (world_of (WrapToStd (fail_with boom) recording_toStd [] 0 () fresh_world)) = [] \<and>
   world.more (world_of (WrapToStd (fail_with boom) recording_toStd [] 0 () fresh_world))
     = [ErrFuncCalled ''Internal Server Error'' 500, SinkWritten boom] \<and>
   statusCode (writers (world_of
       (WrapToStd (fail_with boom) recording_toStd [] 0 () fresh_world)) 0) = None \<and>
   stderr (world_of (WrapToStd_part_000 (fail_with boom) recording_toStd [] 0 () fresh_world))
     = [boom] \<and>
   world.more (world_of (WrapToStd_part_000 (fail_with boom) recording_toStd [] 0 () fresh_world))
     = [] \<and>
   statusCode (writers (world_of
       (WrapToStd_part_000 (fail_with boom) recording_toStd [] 0 () fresh_world)) 0) = Some 500 \<and>
   returned (WrapToStd (fail_with boom) recording_toStd [] 0 () fresh_world) \<and>
   returned (WrapToStd_part_000 (fail_with boom) recording_toStd [] 0 () fresh_world)"
proof -
  have a: "ServeHTTP (fail_with boom) (0::nat) () fresh_world = (Some boom, fresh_world)"
    by (simp add: ServeHTTP_def fail_with_def)
  have d: "WrapToStd_part_000 (fail_with boom) recording_toStd [] 0 () fresh_world
             = Returned (os_Stderr boom
                 (world_of (http_Error 0 ''Internal Server Error'' 500 fresh_world)))"
    by (simp add: WrapToStd_part_000_def HandleErr_error [OF a] classify_boom Fprint_def)
      (simp add: http_Error_world fresh_world_def fresh_response_def Fprint_def)
  have r: "WrapToStd (fail_with boom) recording_toStd [] 0 () fresh_world
             = Returned (rec_sink boom
                 (world_of (rec_errFunc 0 ''Internal Server Error'' 500 fresh_world)))"
    by (simp add: WrapToStd_def recording_toStd_def HandleErr_error [OF a] classify_boom
        Fprint_def rec_errFunc_def)
  show ?thesis
    unfolding d r
    by (simp add: os_Stderr_def http_Error_world fresh_world_def fresh_response_def
        rec_sink_def rec_errFunc_def)
qed

end
